theory Spec2Isabelle
  imports Complex_Main
begin

section \<open>JavaScript values used by the roster\<close>

text \<open>
  Student ids are JavaScript numbers. The code produces integers (\<open>i + 1\<close>,
  \<open>index + 1\<close>, \<open>max + 1\<close>) and, from \<open>Math.max()\<close> applied to no argument,
  \<open>-Infinity\<close>. Both are kept; \<open>-Infinity + 1\<close> is \<open>-Infinity\<close>, and \<open>-Infinity\<close> is
  below every integer.
\<close>

datatype jsnum = NegInfinity | Num int

instantiation jsnum :: linorder
begin

fun less_eq_jsnum :: "jsnum \<Rightarrow> jsnum \<Rightarrow> bool" where
  "less_eq_jsnum NegInfinity y = True"
| "less_eq_jsnum (Num a) NegInfinity = False"
| "less_eq_jsnum (Num a) (Num b) = (a \<le> b)"

definition less_jsnum :: "jsnum \<Rightarrow> jsnum \<Rightarrow> bool" where
  "less_jsnum x y = (x \<le> y \<and> \<not> y \<le> x)"

instance
proof
  fix x y z :: jsnum
  show "(x < y) = (x \<le> y \<and> \<not> y \<le> x)"
    by (simp add: less_jsnum_def)
  show "x \<le> x"
    by (cases x) simp_all
  show "x \<le> y \<Longrightarrow> y \<le> z \<Longrightarrow> x \<le> z"
    by (cases x; cases y; cases z) simp_all
  show "x \<le> y \<Longrightarrow> y \<le> x \<Longrightarrow> x = y"
    by (cases x; cases y) simp_all
  show "x \<le> y \<or> y \<le> x"
    by (cases x; cases y) auto
qed

end

text \<open>\<open>x + 1\<close> on a JavaScript number.\<close>

fun plus1 :: "jsnum \<Rightarrow> jsnum" where
  "plus1 NegInfinity = NegInfinity"
| "plus1 (Num n) = Num (n + 1)"

text \<open>\<open>Math.max(...xs)\<close>: the greatest argument, \<open>-Infinity\<close> for none.\<close>

definition Math_max :: "jsnum list \<Rightarrow> jsnum" where
  "Math_max xs = fold max xs NegInfinity"

text \<open>Truthiness, as \<open>a || b\<close> reads it: \<open>0\<close> and the empty string are falsy.\<close>

fun truthy_num :: "jsnum \<Rightarrow> bool" where
  "truthy_num (Num n) = (n \<noteq> 0)"
| "truthy_num NegInfinity = True"

text \<open>
  \<open>data.f || d\<close> on a property that may be absent (\<open>undefined\<close>, \<open>None\<close> here):
  the default \<open>d\<close> replaces an absent or falsy value.
\<close>

fun or_num :: "jsnum option \<Rightarrow> jsnum \<Rightarrow> jsnum" where
  "or_num None d = d"
| "or_num (Some v) d = (if truthy_num v then v else d)"

fun or_str :: "string option \<Rightarrow> string \<Rightarrow> string" where
  "or_str None d = d"
| "or_str (Some v) d = (if v \<noteq> [] then v else d)"

text \<open>Template literals \<open>`${n}`\<close>: a number rendered in decimal.\<close>

fun natToString :: "nat \<Rightarrow> string" where
  "natToString n =
     (if n < 10 then [char_of (48 + n)]
      else natToString (n div 10) @ [char_of (48 + n mod 10)])"

declare natToString.simps [simp del]

fun numToString :: "jsnum \<Rightarrow> string" where
  "numToString NegInfinity = ''-Infinity''"
| "numToString (Num n) =
     (if n < 0 then CHR ''-'' # natToString (nat (- n)) else natToString (nat n))"

section \<open>The entity pool: StudentDataManager\<close>

text \<open>
  A student object. The field \<open>id\<close> of the source is \<open>sid\<close> here (\<open>id\<close> is the
  identity function of HOL). \<open>drawnAt\<close> is \<open>null\<close> (\<open>None\<close>) or the reading of the
  clock when the student was drawn; the clock is a parameter of every operation that
  reads it.
\<close>

record student =
  sid :: jsnum
  name :: string
  avatar :: string
  rarity :: string
  isDrawn :: bool
  drawnAt :: "nat option"

text \<open>
  \<open>generateRarity\<close>: the argument is the value \<open>Math.random()\<close> returned.
\<close>

definition generateRarity :: "rat \<Rightarrow> string" where
  "generateRarity random =
     (if random < 1 / 100 then ''SR''
      else if random < 10 / 100 then ''R''
      else ''N'')"



definition xuesheng :: string where
  "xuesheng = [CHR 0xE5, CHR 0xAD, CHR 0xA6, CHR 0xE7, CHR 0x94, CHR 0x9F]"

definition hao :: string where
  "hao = [CHR 0xE5, CHR 0x8F, CHR 0xB7]"

definition dicebear :: "string \<Rightarrow> string" where
  "dicebear seed = ''https://api.dicebear.com/7.x/avataaars/svg?seed='' @ seed"




definition getAllStudents :: "student list \<Rightarrow> student list" where
  "getAllStudents students = students"

definition getStudentById :: "jsnum \<Rightarrow> student list \<Rightarrow> student option" where
  "getStudentById i students = find (\<lambda>s. sid s = i) students"

definition getAvailableStudents :: "student list \<Rightarrow> student list" where
  "getAvailableStudents students = filter (\<lambda>s. \<not> isDrawn s) students"

definition getDrawnStudents :: "student list \<Rightarrow> student list" where
  "getDrawnStudents students = filter (\<lambda>s. isDrawn s) students"

text \<open>
  \<open>getStudentById\<close> returns a reference to the first object with the id, and the
  callers mutate that object: \<open>updateFirst i f\<close> applies \<open>f\<close> to it in the array.
\<close>

fun updateFirst :: "jsnum \<Rightarrow> (student \<Rightarrow> student) \<Rightarrow> student list \<Rightarrow> student list" where
  "updateFirst i f [] = []"
| "updateFirst i f (s # ss) = (if sid s = i then f s # ss else s # updateFirst i f ss)"

text \<open>
  \<open>markStudentAsDrawn(id)\<close>: the returned flag and the roster afterwards. \<open>now\<close> is
  the clock.
\<close>

definition markStudentAsDrawn :: "jsnum \<Rightarrow> nat \<Rightarrow> student list \<Rightarrow> bool \<times> student list" where
  "markStudentAsDrawn i now students =
     (case getStudentById i students of
        Some s \<Rightarrow>
          if \<not> isDrawn s
          then (True, updateFirst i (\<lambda>s. s\<lparr>isDrawn := True, drawnAt := Some now\<rparr>) students)
          else (False, students)
      | None \<Rightarrow> (False, students))"

definition resetAllStudents :: "student list \<Rightarrow> student list" where
  "resetAllStudents students = map (\<lambda>s. s\<lparr>isDrawn := False, drawnAt := None\<rparr>) students"

text \<open>
  \<open>addStudent(name, avatar = null)\<close>: the new student and the roster afterwards.
  \<open>random\<close> is the value \<open>Math.random()\<close> returned to \<open>generateRarity\<close>.
\<close>

definition addStudent :: "string \<Rightarrow> string option \<Rightarrow> rat \<Rightarrow> student list \<Rightarrow> student \<times> student list" where
  "addStudent nm av random students =
     (let newId = plus1 (Math_max (map sid students));
          newStudent = \<lparr>sid = newId, name = nm,
                        avatar = or_str av (dicebear (numToString newId)),
                        rarity = generateRarity random, isDrawn = False, drawnAt = None\<rparr>
      in (newStudent, students @ [newStudent]))"



text \<open>
  \<open>updateStudent(id, updates)\<close>: \<open>Object.assign\<close> overwrites the fields that
  \<open>updates\<close> carries.
\<close>

record updates =
  u_id :: "jsnum option"
  u_name :: "string option"
  u_avatar :: "string option"
  u_rarity :: "string option"
  u_isDrawn :: "bool option"
  u_drawnAt :: "nat option option"

definition assign :: "updates \<Rightarrow> student \<Rightarrow> student" where
  "assign u s =
     \<lparr>sid = (case u_id u of Some v \<Rightarrow> v | None \<Rightarrow> sid s),
      name = (case u_name u of Some v \<Rightarrow> v | None \<Rightarrow> name s),
      avatar = (case u_avatar u of Some v \<Rightarrow> v | None \<Rightarrow> avatar s),
      rarity = (case u_rarity u of Some v \<Rightarrow> v | None \<Rightarrow> rarity s),
      isDrawn = (case u_isDrawn u of Some v \<Rightarrow> v | None \<Rightarrow> isDrawn s),
      drawnAt = (case u_drawnAt u of Some v \<Rightarrow> v | None \<Rightarrow> drawnAt s)\<rparr>"

definition updateStudent :: "jsnum \<Rightarrow> updates \<Rightarrow> student list \<Rightarrow> bool \<times> student list" where
  "updateStudent i u students =
     (case getStudentById i students of
        Some s \<Rightarrow> (True, updateFirst i (assign u) students)
      | None \<Rightarrow> (False, students))"

text \<open>
  The argument of \<open>importStudents\<close>. \<open>NotArray\<close> is any value that fails
  \<open>Array.isArray\<close>. An element of an array is \<open>null\<close> or \<open>undefined\<close> (\<open>Nullish\<close>:
  reading a property of it throws a TypeError) or a value whose properties can be read,
  each of \<open>id\<close>, \<open>name\<close>, \<open>avatar\<close>, \<open>rarity\<close> present or absent.
\<close>

record studentData =
  d_id :: "jsnum option"
  d_name :: "string option"
  d_avatar :: "string option"
  d_rarity :: "string option"

datatype item = Nullish | Obj studentData

datatype payload = NotArray | Array "item list"

definition importedStudent :: "(nat \<Rightarrow> rat) \<Rightarrow> nat \<Rightarrow> studentData \<Rightarrow> student" where
  "importedStudent rnd index d =
     \<lparr>sid = or_num (d_id d) (Num (int index + 1)),
      name = or_str (d_name d) (xuesheng @ natToString (index + 1) @ hao),
      avatar = or_str (d_avatar d) (dicebear (natToString (index + 1))),
      rarity = or_str (d_rarity d) (generateRarity (rnd index)),
      isDrawn = False, drawnAt = None\<rparr>"

text \<open>
  The \<open>forEach\<close> of \<open>importStudents\<close>, from element \<open>index\<close> on, pushing onto
  \<open>this.students\<close>. A \<open>Nullish\<close> element throws; the \<open>catch\<close> of \<open>importStudents\<close>
  then returns \<open>false\<close> and \<open>this.students\<close> stays as the loop left it.
\<close>

fun importLoop :: "(nat \<Rightarrow> rat) \<Rightarrow> nat \<Rightarrow> item list \<Rightarrow> student list \<Rightarrow> bool \<times> student list" where
  "importLoop rnd index [] students = (True, students)"
| "importLoop rnd index (Nullish # ds) students = (False, students)"
| "importLoop rnd index (Obj d # ds) students =
     importLoop rnd (index + 1) ds (students @ [importedStudent rnd index d])"

text \<open>
  \<open>importStudents(studentsData)\<close>: the returned flag and the roster afterwards;
  \<open>rnd index\<close> is what \<open>Math.random()\<close> returns when element \<open>index\<close> needs a rarity.
\<close>

definition importStudents :: "payload \<Rightarrow> (nat \<Rightarrow> rat) \<Rightarrow> student list \<Rightarrow> bool \<times> student list" where
  "importStudents studentsData rnd students =
     (case studentsData of
        NotArray \<Rightarrow> (False, students)
      | Array ds \<Rightarrow> importLoop rnd 0 ds [])"

definition exportStudents :: "student list \<Rightarrow> item list" where
  "exportStudents students =
     map (\<lambda>s. Obj \<lparr>d_id = Some (sid s), d_name = Some (name s),
                   d_avatar = Some (avatar s), d_rarity = Some (rarity s)\<rparr>) students"

section \<open>The draw allocation engine: CardDrawEngine\<close>

datatype drawMode = RANDOM | WEIGHTED | SEQUENTIAL

text \<open>
  A record of the draw history. In the source \<open>student\<close> is a reference to the
  selected object; here it is the value of that object when it was selected. Draw and
  reset never change its \<open>sid\<close>, \<open>name\<close>, \<open>avatar\<close> and \<open>rarity\<close>.
\<close>

record drawRecord =
  student :: student
  timestamp :: nat
  mode :: drawMode
  remainingCount :: int

text \<open>
  What \<open>drawCard\<close> throws: the two errors it creates itself, and the TypeError of
  \<open>selectedStudent.id\<close> when the selection returned \<open>undefined\<close>.
\<close>

datatype drawError = Busy | ExhaustedPool | TypeError

datatype event =
    DrawStart nat
  | DrawComplete student drawRecord int
  | DrawError drawError
  | ResetComplete nat

text \<open>
  The engine together with the pool it holds in \<open>studentDataManager\<close>. \<open>emitted\<close> is
  the sequence of notifications the engine has sent to its listeners, oldest first; a
  listener is an observer (\<open>emit\<close> catches what it throws).
\<close>

record engine =
  students :: "student list"
  drawHistory :: "drawRecord list"
  isDrawing :: bool
  currentMode :: drawMode
  rarityWeights :: "string \<rightharpoonup> rat"
  emitted :: "event list"

definition defaultWeights :: "string \<rightharpoonup> rat" where
  "defaultWeights = [''N'' \<mapsto> 1, ''R'' \<mapsto> 1 / 2, ''SR'' \<mapsto> 1 / 10]"

definition newEngine :: "student list \<Rightarrow> engine" where
  "newEngine pool =
     \<lparr>students = pool, drawHistory = [], isDrawing = False, currentMode = RANDOM,
      rarityWeights = defaultWeights, emitted = []\<rparr>"

definition emit :: "event \<Rightarrow> engine \<Rightarrow> engine" where
  "emit ev e = e\<lparr>emitted := emitted e @ [ev]\<rparr>"

text \<open>
  \<open>randomDraw\<close>: \<open>u\<close> is the value of \<open>Math.random()\<close>. An index outside the array
  reads \<open>undefined\<close> (\<open>None\<close>).
\<close>

definition randomDraw :: "rat \<Rightarrow> student list \<Rightarrow> student option" where
  "randomDraw u availableStudents =
     (let randomIndex = \<lfloor>u * of_nat (length availableStudents)\<rfloor>
      in if 0 \<le> randomIndex \<and> randomIndex < int (length availableStudents)
         then Some (availableStudents ! nat randomIndex) else None)"

text \<open>\<open>this.rarityWeights[student.rarity] || 1\<close>: an absent or zero weight reads 1.\<close>

definition weightOf :: "(string \<rightharpoonup> rat) \<Rightarrow> student \<Rightarrow> rat" where
  "weightOf ws s = (case ws (rarity s) of None \<Rightarrow> 1 | Some w \<Rightarrow> if w \<noteq> 0 then w else 1)"

definition totalWeight :: "(string \<rightharpoonup> rat) \<Rightarrow> student list \<Rightarrow> rat" where
  "totalWeight ws availableStudents =
     fold (\<lambda>s sum. sum + weightOf ws s) availableStudents 0"

text \<open>
  The \<open>for\<close> loop of \<open>weightedDraw\<close>: \<open>Some\<close> the student it returns, \<open>None\<close> when it
  ends without returning.
\<close>

fun weightedLoop :: "(string \<rightharpoonup> rat) \<Rightarrow> rat \<Rightarrow> student list \<Rightarrow> student option" where
  "weightedLoop ws random [] = None"
| "weightedLoop ws random (s # ss) =
     (let random' = random - weightOf ws s
      in if random' \<le> 0 then Some s else weightedLoop ws random' ss)"

text \<open>\<open>xs[xs.length - 1]\<close>: \<open>undefined\<close> on the empty array.\<close>

definition lastOf :: "'a list \<Rightarrow> 'a option" where
  "lastOf xs = (if xs = [] then None else Some (last xs))"

definition weightedDraw :: "(string \<rightharpoonup> rat) \<Rightarrow> rat \<Rightarrow> student list \<Rightarrow> student option" where
  "weightedDraw ws u availableStudents =
     (let random = u * totalWeight ws availableStudents
      in case weightedLoop ws random availableStudents of
           Some s \<Rightarrow> Some s
         | None \<Rightarrow> lastOf availableStudents)"

text \<open>
  \<open>sequentialDraw\<close>: \<open>sort\<close> is stable and the comparator \<open>a.id - b.id\<close> orders the
  ids as \<open>\<le>\<close> does (\<open>-Infinity - -Infinity\<close> is \<open>NaN\<close>, which \<open>sort\<close> reads as equal);
  the first element of the sorted array, \<open>undefined\<close> when it is empty.
\<close>

definition sequentialDraw :: "student list \<Rightarrow> student option" where
  "sequentialDraw availableStudents =
     (case sort_key sid availableStudents of [] \<Rightarrow> None | s # ss \<Rightarrow> Some s)"

definition selectStudent :: "engine \<Rightarrow> rat \<Rightarrow> student list \<Rightarrow> student option" where
  "selectStudent e u availableStudents =
     (case currentMode e of
        WEIGHTED \<Rightarrow> weightedDraw (rarityWeights e) u availableStudents
      | SEQUENTIAL \<Rightarrow> sequentialDraw availableStudents
      | RANDOM \<Rightarrow> randomDraw u availableStudents)"

text \<open>
  What a draw holds across its \<open>await\<close>, and returns at its end with \<open>success: true\<close>.
\<close>

record pending =
  p_student :: student
  p_drawRecord :: drawRecord
  p_remainingCount :: int

text \<open>
  \<open>drawCard\<close> up to its \<open>await\<close>. \<open>u\<close> is the value of \<open>Math.random()\<close> for the
  selection, \<open>tMark\<close> and \<open>tRecord\<close> the clock read by \<open>markStudentAsDrawn\<close> and for
  the record. \<open>Inl\<close> is the error thrown (the \<open>catch\<close> and \<open>finally\<close> blocks have
  run), \<open>Inr\<close> the draw suspended at the \<open>await\<close>. The flag that
  \<open>markStudentAsDrawn\<close> returns is not read.
\<close>

definition drawCard_begin :: "engine \<Rightarrow> rat \<Rightarrow> nat \<Rightarrow> nat \<Rightarrow> (drawError + pending) \<times> engine" where
  "drawCard_begin e u tMark tRecord =
     (if isDrawing e then (Inl Busy, e)
      else
        let availableStudents = getAvailableStudents (students e) in
        if length availableStudents = 0
        then (Inl ExhaustedPool, emit (DrawError ExhaustedPool) e)
        else
          let e1 = emit (DrawStart (length availableStudents)) (e\<lparr>isDrawing := True\<rparr>) in
          case selectStudent e1 u availableStudents of
            None \<Rightarrow> (Inl TypeError, (emit (DrawError TypeError) e1)\<lparr>isDrawing := False\<rparr>)
          | Some selectedStudent \<Rightarrow>
              let marked = markStudentAsDrawn (sid selectedStudent) tMark (students e1);
                  rec = \<lparr>student = selectedStudent, timestamp = tRecord,
                         mode = currentMode e1,
                         remainingCount = int (length availableStudents) - 1\<rparr>;
                  e2 = e1\<lparr>students := snd marked, drawHistory := drawHistory e1 @ [rec]\<rparr>
              in (Inr \<lparr>p_student = selectedStudent, p_drawRecord = rec,
                        p_remainingCount = int (length availableStudents) - 1\<rparr>, e2))"

text \<open>\<open>drawCard\<close> after its \<open>await\<close>: the notification, the result, the \<open>finally\<close>.\<close>

definition drawCard_resume :: "pending \<Rightarrow> engine \<Rightarrow> (drawError + pending) \<times> engine" where
  "drawCard_resume p e =
     (Inr p,
      (emit (DrawComplete (p_student p) (p_drawRecord p) (p_remainingCount p)) e)
        \<lparr>isDrawing := False\<rparr>)"

text \<open>A draw that nothing interleaves with.\<close>

definition drawCard :: "engine \<Rightarrow> rat \<Rightarrow> nat \<Rightarrow> nat \<Rightarrow> (drawError + pending) \<times> engine" where
  "drawCard e u tMark tRecord =
     (case drawCard_begin e u tMark tRecord of
        (Inl err, e') \<Rightarrow> (Inl err, e')
      | (Inr p, e') \<Rightarrow> drawCard_resume p e')"

definition reset :: "engine \<Rightarrow> engine" where
  "reset e =
     (let e1 = e\<lparr>students := resetAllStudents (students e), drawHistory := [],
                 isDrawing := False\<rparr>
      in emit (ResetComplete (length (getAllStudents (students e1)))) e1)"

text \<open>
  Draws one after the other, each to its end, whatever each returns; an element of the
  list is the \<open>(u, tMark, tRecord)\<close> of one draw.
\<close>

fun drawCards :: "engine \<Rightarrow> (rat \<times> nat \<times> nat) list \<Rightarrow> engine" where
  "drawCards e [] = e"
| "drawCards e ((u, tMark, tRecord) # ins) =
     drawCards (snd (drawCard e u tMark tRecord)) ins"

text \<open>
  \<open>setDrawMode(mode)\<close>: \<open>Object.values(this.drawModes).includes(mode)\<close> holds for the
  three mode strings; \<open>None\<close> is the Error thrown for any other.
\<close>

definition modeOfString :: "string \<Rightarrow> drawMode option" where
  "modeOfString m =
     (if m = ''random'' then Some RANDOM
      else if m = ''weighted'' then Some WEIGHTED
      else if m = ''sequential'' then Some SEQUENTIAL
      else None)"

definition setDrawMode :: "string \<Rightarrow> engine \<Rightarrow> engine option" where
  "setDrawMode m e =
     (case modeOfString m of
        Some v \<Rightarrow> Some (e\<lparr>currentMode := v\<rparr>)
      | None \<Rightarrow> None)"


section \<open>Auxiliary definitions\<close>


text \<open>A student as the roster first holds it, for the examples.\<close>

definition entity :: "int \<Rightarrow> string \<Rightarrow> string \<Rightarrow> student" where
  "entity i nm r =
     \<lparr>sid = Num i, name = nm, avatar = ''./images/'' @ nm @ ''.jpg'', rarity = r,
      isDrawn = False, drawnAt = None\<rparr>"

text \<open>The roster with the ids 5, 3, 8, 1, in this order.\<close>

definition roster5381 :: "student list" where
  "roster5381 =
     [entity 5 ''E'' ''N'', entity 3 ''C'' ''R'', entity 8 ''H'' ''N'', entity 1 ''A'' ''SR'']"



text \<open>
  A student whose \<open>id\<close>, \<open>name\<close>, \<open>avatar\<close> and \<open>rarity\<close> are all truthy: what
  \<open>importStudents\<close> keeps when it reads them back.
\<close>

definition truthyFields :: "student \<Rightarrow> bool" where
  "truthyFields s = (truthy_num (sid s) \<and> name s \<noteq> [] \<and> avatar s \<noteq> [] \<and> rarity s \<noteq> [])"

text \<open>Example data: an update that changes nothing, rosters and import payloads.\<close>

definition noUpdates :: updates where
  "noUpdates = \<lparr>u_id = None, u_name = None, u_avatar = None, u_rarity = None,
                 u_isDrawn = None, u_drawnAt = None\<rparr>"

definition rosterFalsy :: "student list" where
  "rosterFalsy =
     snd (updateStudent (Num 1) (noUpdates\<lparr>u_avatar := Some []\<rparr>)
            (snd (addStudent [] None 0 [entity 1 ''A'' ''N''])))"










text \<open>
  Example data: the roster that \<open>importStudents\<close> makes of two records with the id 1,
  and the engine over it after one draw; the first draw on the roster with the ids 5,
  3, 8, 1 in the random mode with \<open>Math.random() = 0\<close>, and the engine when that draw
  is at its \<open>await\<close>.
\<close>

definition duplicateRoster :: "student list" where
  "duplicateRoster =
     snd (importStudents
       (Array [Obj \<lparr>d_id = Some (Num 1), d_name = Some ''A'', d_avatar = None, d_rarity = Some ''N''\<rparr>,
               Obj \<lparr>d_id = Some (Num 1), d_name = Some ''B'', d_avatar = None, d_rarity = Some ''N''\<rparr>])
       (\<lambda>i. 0) [])"

definition drawnOnce :: engine where
  "drawnOnce = snd (drawCard (newEngine duplicateRoster) 0 1 1)"

definition firstDraw :: pending where
  "firstDraw =
     \<lparr>p_student = entity 5 ''E'' ''N'',
      p_drawRecord = \<lparr>student = entity 5 ''E'' ''N'', timestamp = 2, mode = RANDOM,
                       remainingCount = 3\<rparr>,
      p_remainingCount = 3\<rparr>"

definition inFlight :: engine where
  "inFlight = snd (drawCard_begin (newEngine roster5381) 0 1 2)"

section \<open>Selections and the no-repeat invariant\<close>


lemma map_sid_updateFirst:
  "(\<And>s. sid (f s) = sid s) \<Longrightarrow> map sid (updateFirst i f xs) = map sid xs"
  by (induction xs) auto

lemma find_distinct_sid:
  "distinct (map sid xs) \<Longrightarrow> s \<in> set xs \<Longrightarrow> find (\<lambda>x. sid x = sid s) xs = Some s"
  by (induction xs) (auto simp: rev_image_eqI)



lemma markStudentAsDrawn_distinct:
  assumes "distinct (map sid xs)" "s \<in> set xs" "\<not> isDrawn s"
  shows "markStudentAsDrawn (sid s) now xs =
           (True, updateFirst (sid s) (\<lambda>s. s\<lparr>isDrawn := True, drawnAt := Some now\<rparr>) xs)"
  using assms by (simp add: markStudentAsDrawn_def getStudentById_def find_distinct_sid)

lemma weightedLoop_mem: "weightedLoop ws r xs = Some s \<Longrightarrow> s \<in> set xs"
  by (induction xs arbitrary: r) (auto simp: Let_def split: if_splits)

lemma weightedDraw_mem: "weightedDraw ws u xs = Some s \<Longrightarrow> s \<in> set xs"
  by (auto simp: weightedDraw_def Let_def lastOf_def split: option.splits if_splits dest: weightedLoop_mem)

lemma randomDraw_mem:
  assumes "randomDraw u xs = Some s"
  shows "s \<in> set xs"
proof -
  define k where "k = \<lfloor>u * of_nat (length xs)\<rfloor>"
  from assms have k: "0 \<le> k" "k < int (length xs)" and s: "s = xs ! nat k"
    by (auto simp: randomDraw_def Let_def k_def split: if_splits)
  from k have "nat k < length xs" by linarith
  with s show ?thesis by simp
qed

lemma sequentialDraw_mem: "sequentialDraw xs = Some s \<Longrightarrow> s \<in> set xs"
proof -
  assume "sequentialDraw xs = Some s"
  then obtain ss where "sort_key sid xs = s # ss"
    by (auto simp: sequentialDraw_def split: list.splits)
  then have "s \<in> set (sort_key sid xs)" by simp
  then show ?thesis by simp
qed

lemma selectStudent_mem: "selectStudent e u xs = Some s \<Longrightarrow> s \<in> set xs"
  by (auto simp: selectStudent_def split: drawMode.splits
      dest: weightedDraw_mem randomDraw_mem sequentialDraw_mem)

lemma drawCard_begin_students_ids:
  "map sid (students (snd (drawCard_begin e u t1 t2))) = map sid (students e)"
  by (auto simp: drawCard_begin_def Let_def emit_def markStudentAsDrawn_def map_sid_updateFirst
      split: option.splits)

lemma drawCard_Busy: "isDrawing e \<Longrightarrow> drawCard e u t1 t2 = (Inl Busy, e)"
  by (simp add: drawCard_def drawCard_begin_def)





section \<open>The sequential policy\<close>

lemma sequentialDraw_min:
  assumes "S \<noteq> []"
  shows "\<exists>s. sequentialDraw S = Some s \<and> s \<in> set S \<and> sid s = Min (sid ` set S)"
proof -
  from assms have "sort_key sid S \<noteq> []"
    by (metis length_sort length_0_conv)
  then obtain s ss where srt: "sort_key sid S = s # ss"
    by (cases "sort_key sid S") auto
  then have sel: "sequentialDraw S = Some s"
    by (simp add: sequentialDraw_def)
  have mem: "s \<in> set S"
    using sel by (rule sequentialDraw_mem)
  have "sorted (map sid (sort_key sid S))"
    by (rule sorted_sort_key)
  with srt have "\<forall>x \<in> set ss. sid s \<le> sid x"
    by simp
  moreover have "set S = insert s (set ss)"
    using srt by (metis list.simps(15) set_sort)
  ultimately have "\<forall>x \<in> set S. sid s \<le> sid x"
    by auto
  with mem have "Min (sid ` set S) = sid s"
    by (intro Min_eqI) auto
  with sel mem show ?thesis by auto
qed

lemma sequential_5381:
  "(case setDrawMode ''sequential'' (newEngine roster5381) of
      None \<Rightarrow> False
    | Some e0 \<Rightarrow>
        map (\<lambda>r. sid (student r))
          (drawHistory (drawCards e0 [(u1, a1, b1), (u2, a2, b2), (u3, a3, b3), (u4, a4, b4)]))
          = [Num 1, Num 3, Num 5, Num 8]
        \<and> fst (drawCard (drawCards e0 [(u1, a1, b1), (u2, a2, b2), (u3, a3, b3), (u4, a4, b4)])
                 u5 a5 b5) = Inl ExhaustedPool)"
  by code_simp

text \<open>
  C6. In the sequential mode a draw on an idle engine with a non-empty available
  snapshot succeeds, and the student it returns is the one \<open>sequentialDraw\<close> selects
  from the snapshot: a student of the snapshot whose id is the minimum of the
  snapshot's ids. And the roster with the ids 5, 3, 8, 1, set to the sequential mode and
  drawn four times (whatever the random values and the clock), has the draw order
  1, 3, 5, 8; the fifth draw fails: the pool is exhausted.
\<close>

theorem sequential_minimum:
  "(currentMode e = SEQUENTIAL \<and> \<not> isDrawing e \<and> getAvailableStudents (students e) \<noteq> []
     \<longrightarrow> (\<exists>p e'. drawCard e u tMark tRecord = (Inr p, e')
            \<and> sequentialDraw (getAvailableStudents (students e)) = Some (p_student p)
            \<and> p_student p \<in> set (getAvailableStudents (students e))
            \<and> sid (p_student p) = Min (sid ` set (getAvailableStudents (students e)))))
   \<and> (case setDrawMode ''sequential'' (newEngine roster5381) of
        None \<Rightarrow> False
      | Some e0 \<Rightarrow>
          map (\<lambda>r. sid (student r))
            (drawHistory (drawCards e0 [(u1, a1, b1), (u2, a2, b2), (u3, a3, b3), (u4, a4, b4)]))
            = [Num 1, Num 3, Num 5, Num 8]
          \<and> fst (drawCard (drawCards e0 [(u1, a1, b1), (u2, a2, b2), (u3, a3, b3), (u4, a4, b4)])
                   u5 a5 b5) = Inl ExhaustedPool)"
proof (intro conjI impI)
  assume h: "currentMode e = SEQUENTIAL \<and> \<not> isDrawing e \<and> getAvailableStudents (students e) \<noteq> []"
  then obtain s where s: "sequentialDraw (getAvailableStudents (students e)) = Some s"
    "s \<in> set (getAvailableStudents (students e))"
    "sid s = Min (sid ` set (getAvailableStudents (students e)))"
    using sequentialDraw_min by blast
  with h show "\<exists>p e'. drawCard e u tMark tRecord = (Inr p, e')
            \<and> sequentialDraw (getAvailableStudents (students e)) = Some (p_student p)
            \<and> p_student p \<in> set (getAvailableStudents (students e))
            \<and> sid (p_student p) = Min (sid ` set (getAvailableStudents (students e)))"
    by (simp add: drawCard_def drawCard_begin_def drawCard_resume_def selectStudent_def
        emit_def Let_def)
qed (rule sequential_5381)

theorem sequential_minimum_witness:
  "currentMode ((newEngine roster5381)\<lparr>currentMode := SEQUENTIAL\<rparr>) = SEQUENTIAL
   \<and> \<not> isDrawing ((newEngine roster5381)\<lparr>currentMode := SEQUENTIAL\<rparr>)
   \<and> getAvailableStudents (students ((newEngine roster5381)\<lparr>currentMode := SEQUENTIAL\<rparr>)) \<noteq> []
   \<and> (\<exists>p e'. drawCard ((newEngine roster5381)\<lparr>currentMode := SEQUENTIAL\<rparr>) 0 1 2 = (Inr p, e')
         \<and> sid (p_student p) = Num 1)"
proof -
  have m: "Min (sid ` set (getAvailableStudents (students ((newEngine roster5381)\<lparr>currentMode := SEQUENTIAL\<rparr>)))) = Num 1"
    by (simp add: newEngine_def roster5381_def entity_def getAvailableStudents_def)
  have a: "getAvailableStudents (students ((newEngine roster5381)\<lparr>currentMode := SEQUENTIAL\<rparr>)) \<noteq> []"
    by (simp add: newEngine_def roster5381_def entity_def getAvailableStudents_def)
  have c: "currentMode ((newEngine roster5381)\<lparr>currentMode := SEQUENTIAL\<rparr>) = SEQUENTIAL"
    "\<not> isDrawing ((newEngine roster5381)\<lparr>currentMode := SEQUENTIAL\<rparr>)"
    by (simp_all add: newEngine_def)
  from sequential_minimum
    [of "(newEngine roster5381)\<lparr>currentMode := SEQUENTIAL\<rparr>" 0 1 2] a c
  have "\<exists>p e'. drawCard ((newEngine roster5381)\<lparr>currentMode := SEQUENTIAL\<rparr>) 0 1 2 = (Inr p, e')
         \<and> sid (p_student p)
            = Min (sid ` set (getAvailableStudents (students ((newEngine roster5381)\<lparr>currentMode := SEQUENTIAL\<rparr>))))"
    by blast
  with m a c show ?thesis by simp
qed

section \<open>Adding a student\<close>








text \<open>
  C10. On the empty roster (what \<open>importStudents\<close> of the empty array leaves)
  \<open>Math.max()\<close> has no argument: the student that \<open>addStudent\<close> returns has the id
  \<open>-Infinity\<close>, which is no positive integer, and the default avatar is built from it.
\<close>

theorem addStudent_empty_roster:
  "fst (addStudent nm None r []) =
     \<lparr>sid = NegInfinity, name = nm,
      avatar = ''https://api.dicebear.com/7.x/avataaars/svg?seed=-Infinity'',
      rarity = generateRarity r, isDrawn = False, drawnAt = None\<rparr>
   \<and> snd (importStudents (Array []) rnd roster5381) = []
   \<and> (\<nexists>n. 0 < n \<and> sid (fst (addStudent nm av r [])) = Num n)"
  by (simp add: addStudent_def Math_max_def dicebear_def importStudents_def Let_def)

section \<open>Import and export\<close>

lemma importStudents_NotArray: "importStudents NotArray rnd xs = (False, xs)"
  by (simp add: importStudents_def)

text \<open>
  C8. An array with a \<open>null\<close> element makes \<open>importStudents\<close> fail (it returns
  \<open>false\<close>) after the roster has been emptied and the elements before the \<open>null\<close> have
  been pushed: the roster with the ids 5, 3, 8, 1 is left empty by \<open>[null]\<close>, and holds
  the one imported student after \<open>[d, null]\<close>.
\<close>

theorem importStudents_failed_changes_roster:
  "importStudents (Array [Nullish]) rnd roster5381 = (False, [])
   \<and> importStudents (Array [Obj d, Nullish]) rnd roster5381 = (False, [importedStudent rnd 0 d])
   \<and> roster5381 \<noteq> [] \<and> roster5381 \<noteq> [importedStudent rnd 0 d]"
  by (simp add: importStudents_def roster5381_def)

lemma importedStudent_export:
  "truthyFields s \<Longrightarrow>
   importedStudent rnd k \<lparr>d_id = Some (sid s), d_name = Some (name s),
                           d_avatar = Some (avatar s), d_rarity = Some (rarity s)\<rparr>
     = s\<lparr>isDrawn := False, drawnAt := None\<rparr>"
  by (cases s) (simp add: importedStudent_def truthyFields_def)

lemma importLoop_export:
  "list_all truthyFields xs \<Longrightarrow>
   importLoop rnd k (exportStudents xs) acc = (True, acc @ resetAllStudents xs)"
proof (induction xs arbitrary: k acc)
  case Nil
  then show ?case by (simp add: exportStudents_def resetAllStudents_def)
next
  case (Cons s xs)
  then have t: "truthyFields s" and r: "list_all truthyFields xs" by simp_all
  have "importLoop rnd k (exportStudents (s # xs)) acc
          = importLoop rnd (k + 1) (exportStudents xs) (acc @ [s\<lparr>isDrawn := False, drawnAt := None\<rparr>])"
    using importedStudent_export[OF t] by (simp add: exportStudents_def)
  also have "\<dots> = (True, (acc @ [s\<lparr>isDrawn := False, drawnAt := None\<rparr>]) @ resetAllStudents xs)"
    using Cons.IH[OF r] .
  finally show ?case by (simp add: resetAllStudents_def)
qed

text \<open>
  C7. For a roster in which every student has a truthy id (not 0) and a non-empty
  name, avatar and rarity, whatever is drawn in it, importing what \<open>exportStudents\<close>
  returns succeeds and leaves the roster that \<open>resetAllStudents\<close> would: the same
  students in the same order with the same ids, names, rarities and avatars, none drawn
  and every \<open>drawnAt\<close> null.
\<close>

theorem import_export_roundtrip:
  "list_all truthyFields xs \<longrightarrow>
     importStudents (Array (exportStudents xs)) rnd ys = (True, resetAllStudents xs)
     \<and> map sid (resetAllStudents xs) = map sid xs
     \<and> map name (resetAllStudents xs) = map name xs
     \<and> map rarity (resetAllStudents xs) = map rarity xs
     \<and> map avatar (resetAllStudents xs) = map avatar xs
     \<and> list_all (\<lambda>s. \<not> isDrawn s \<and> drawnAt s = None) (resetAllStudents xs)"
  using importLoop_export[of xs rnd 0 "[]"]
  by (simp add: importStudents_def resetAllStudents_def list_all_iff o_def)

theorem import_export_roundtrip_witness:
  "list_all truthyFields (snd (markStudentAsDrawn (Num 3) 7 roster5381))
   \<and> map sid (getDrawnStudents (snd (markStudentAsDrawn (Num 3) 7 roster5381))) = [Num 3]
   \<and> importStudents (Array (exportStudents (snd (markStudentAsDrawn (Num 3) 7 roster5381))))
        (\<lambda>i. 0) (snd (markStudentAsDrawn (Num 3) 7 roster5381)) = (True, roster5381)"
proof -
  have h: "list_all truthyFields (snd (markStudentAsDrawn (Num 3) 7 roster5381))"
    "map sid (getDrawnStudents (snd (markStudentAsDrawn (Num 3) 7 roster5381))) = [Num 3]"
    "resetAllStudents (snd (markStudentAsDrawn (Num 3) 7 roster5381)) = roster5381"
    by code_simp+
  from h import_export_roundtrip
    [of "snd (markStudentAsDrawn (Num 3) 7 roster5381)" "\<lambda>i. 0"
        "snd (markStudentAsDrawn (Num 3) 7 roster5381)"]
  show ?thesis by simp
qed

text \<open>
  C7, as it is stated for every roster, fails on a roster with a falsy field.
  \<open>rosterFalsy\<close> is the roster \<open>[1]\<close> after \<open>addStudent('')\<close> and
  \<open>updateStudent(1, {avatar: ''})\<close>: the import of its export replaces the empty name
  and the empty avatar by the defaults of \<open>importStudents\<close>.
\<close>

theorem import_export_roundtrip_counterexample:
  "map name rosterFalsy = [''A'', []]
   \<and> map avatar rosterFalsy = [[], ''https://api.dicebear.com/7.x/avataaars/svg?seed=2'']
   \<and> fst (importStudents (Array (exportStudents rosterFalsy)) (\<lambda>i. 0) rosterFalsy) = True
   \<and> map name (snd (importStudents (Array (exportStudents rosterFalsy)) (\<lambda>i. 0) rosterFalsy))
       = [''A'', xuesheng @ ''2'' @ hao]
   \<and> map avatar (snd (importStudents (Array (exportStudents rosterFalsy)) (\<lambda>i. 0) rosterFalsy))
       = [''https://api.dicebear.com/7.x/avataaars/svg?seed=1'',
          ''https://api.dicebear.com/7.x/avataaars/svg?seed=2'']"
  by code_simp

section \<open>The ids of the roster\<close>

























section \<open>The weighted policy\<close>









lemma weightedDraw_nonempty: "S \<noteq> [] \<Longrightarrow> \<exists>s. weightedDraw ws u S = Some s \<and> s \<in> set S"
  by (cases "weightedLoop ws (u * totalWeight ws S) S")
     (auto simp: weightedDraw_def lastOf_def Let_def dest: weightedLoop_mem)




section \<open>The draw operation\<close>

lemma selectStudent_cong:
  "currentMode e' = currentMode e \<Longrightarrow> rarityWeights e' = rarityWeights e \<Longrightarrow>
   selectStudent e' u S = selectStudent e u S"
  by (simp add: selectStudent_def split: drawMode.splits)

lemma selectStudent_emit [simp]:
  "selectStudent (emit ev (e\<lparr>isDrawing := b\<rparr>)) u S = selectStudent e u S"
  by (rule selectStudent_cong) (simp_all add: emit_def)

lemma selectStudent_started [simp]:
  "selectStudent (e\<lparr>isDrawing := b, emitted := evs\<rparr>) u S = selectStudent e u S"
  by (rule selectStudent_cong) simp_all

lemma drawCard_begin_Busy:
  "isDrawing e \<Longrightarrow> drawCard_begin e u tm tr = (Inl Busy, e)"
  by (simp add: drawCard_begin_def)

lemma drawCard_begin_Exhausted:
  "\<not> isDrawing e \<Longrightarrow> getAvailableStudents (students e) = [] \<Longrightarrow>
   drawCard_begin e u tm tr = (Inl ExhaustedPool, emit (DrawError ExhaustedPool) e)"
  by (simp add: drawCard_begin_def)

lemma drawCard_begin_TypeError:
  "\<not> isDrawing e \<Longrightarrow> getAvailableStudents (students e) \<noteq> [] \<Longrightarrow>
   selectStudent e u (getAvailableStudents (students e)) = None \<Longrightarrow>
   drawCard_begin e u tm tr =
     (Inl TypeError,
      e\<lparr>isDrawing := False,
        emitted := emitted e @ [DrawStart (length (getAvailableStudents (students e))),
                               DrawError TypeError]\<rparr>)"
  by (simp add: drawCard_begin_def emit_def Let_def)

lemma drawCard_begin_Some:
  "\<not> isDrawing e \<Longrightarrow> getAvailableStudents (students e) \<noteq> [] \<Longrightarrow>
   selectStudent e u (getAvailableStudents (students e)) = Some s \<Longrightarrow>
   drawCard_begin e u tm tr =
     (Inr \<lparr>p_student = s,
           p_drawRecord = \<lparr>student = s, timestamp = tr, mode = currentMode e,
              remainingCount = int (length (getAvailableStudents (students e))) - 1\<rparr>,
           p_remainingCount = int (length (getAvailableStudents (students e))) - 1\<rparr>,
      e\<lparr>isDrawing := True,
        emitted := emitted e @ [DrawStart (length (getAvailableStudents (students e)))],
        students := snd (markStudentAsDrawn (sid s) tm (students e)),
        drawHistory := drawHistory e @
          [\<lparr>student = s, timestamp = tr, mode = currentMode e,
            remainingCount = int (length (getAvailableStudents (students e))) - 1\<rparr>]\<rparr>)"
  by (simp add: drawCard_begin_def emit_def Let_def)

lemma drawCard_begin_cases:
  obtains (Busy) "isDrawing e" "drawCard_begin e u tm tr = (Inl Busy, e)"
  | (Exhausted) "\<not> isDrawing e" "getAvailableStudents (students e) = []"
      "drawCard_begin e u tm tr = (Inl ExhaustedPool, emit (DrawError ExhaustedPool) e)"
  | (TypeError) "\<not> isDrawing e" "getAvailableStudents (students e) \<noteq> []"
      "selectStudent e u (getAvailableStudents (students e)) = None"
      "drawCard_begin e u tm tr =
         (Inl TypeError,
          e\<lparr>isDrawing := False,
            emitted := emitted e @ [DrawStart (length (getAvailableStudents (students e))),
                                   DrawError TypeError]\<rparr>)"
  | (Selected) s where "\<not> isDrawing e" "getAvailableStudents (students e) \<noteq> []"
      "selectStudent e u (getAvailableStudents (students e)) = Some s"
      "drawCard_begin e u tm tr =
     (Inr \<lparr>p_student = s,
           p_drawRecord = \<lparr>student = s, timestamp = tr, mode = currentMode e,
              remainingCount = int (length (getAvailableStudents (students e))) - 1\<rparr>,
           p_remainingCount = int (length (getAvailableStudents (students e))) - 1\<rparr>,
      e\<lparr>isDrawing := True,
        emitted := emitted e @ [DrawStart (length (getAvailableStudents (students e)))],
        students := snd (markStudentAsDrawn (sid s) tm (students e)),
        drawHistory := drawHistory e @
          [\<lparr>student = s, timestamp = tr, mode = currentMode e,
            remainingCount = int (length (getAvailableStudents (students e))) - 1\<rparr>]\<rparr>)"
proof (cases "isDrawing e")
  case True
  then show ?thesis using drawCard_begin_Busy Busy by blast
next
  case idle: False
  show ?thesis
  proof (cases "getAvailableStudents (students e) = []")
    case True
    with idle show ?thesis using drawCard_begin_Exhausted Exhausted by blast
  next
    case avail: False
    show ?thesis
    proof (cases "selectStudent e u (getAvailableStudents (students e))")
      case None
      with idle avail show ?thesis using drawCard_begin_TypeError TypeError by blast
    next
      case (Some s)
      with idle avail show ?thesis using drawCard_begin_Some Selected by blast
    qed
  qed
qed

lemma randomDraw_Some:
  assumes "0 \<le> u" "u < 1" "S \<noteq> []"
  shows "randomDraw u S \<noteq> None"
proof -
  let ?n = "length S"
  from assms(3) have n: "0 < ?n" by simp
  have "0 \<le> u * of_nat ?n"
    using assms(1) by simp
  then have lo: "0 \<le> \<lfloor>u * of_nat ?n\<rfloor>"
    by simp
  have "u * of_nat ?n < 1 * of_nat ?n"
    using assms(2) n by (intro mult_strict_right_mono) simp_all
  then have "u * of_nat ?n < of_int (int ?n)"
    by simp
  then have hi: "\<lfloor>u * of_nat ?n\<rfloor> < int ?n"
    by (simp only: floor_less_iff)
  from lo hi show ?thesis
    by (simp add: randomDraw_def Let_def)
qed

lemma selectStudent_Some:
  assumes "0 \<le> u" "u < 1" "S \<noteq> []"
  shows "selectStudent e u S \<noteq> None"
proof (cases "currentMode e")
  case RANDOM
  then show ?thesis using randomDraw_Some[OF assms] by (simp add: selectStudent_def)
next
  case WEIGHTED
  then show ?thesis
    using weightedDraw_nonempty[OF assms(3), of "rarityWeights e" u] by (auto simp: selectStudent_def)
next
  case SEQUENTIAL
  then show ?thesis
    using sequentialDraw_min[OF assms(3)] by (auto simp: selectStudent_def)
qed

text \<open>
  C1. \<open>drawCard\<close> does not read the flag that \<open>markStudentAsDrawn\<close> returns, and it has
  no error for a failed mark. A draw that fails (the engine is busy, no student is
  available, or the selection throws) leaves the roster and the history as they were. A
  draw that succeeds returns a student of the available snapshot, has asked the pool to
  mark that student's id, has appended exactly one record, of that student, to the
  history, has emitted draw-start and draw-complete, and leaves the engine idle. When
  the ids of the roster are unique, the mark of the selected student succeeds, so the
  record belongs to a commit of the pool that succeeded.
\<close>

theorem draw_commit:
  "(fst (drawCard e u tm tr) = Inl err \<longrightarrow>
      students (snd (drawCard e u tm tr)) = students e
      \<and> drawHistory (snd (drawCard e u tm tr)) = drawHistory e
      \<and> (err = Busy \<or> err = ExhaustedPool \<or> err = TypeError))
   \<and> (fst (drawCard e u tm tr) = Inr p \<longrightarrow>
      p_student p \<in> set (getAvailableStudents (students e))
      \<and> students (snd (drawCard e u tm tr))
          = snd (markStudentAsDrawn (sid (p_student p)) tm (students e))
      \<and> drawHistory (snd (drawCard e u tm tr)) = drawHistory e @ [p_drawRecord p]
      \<and> student (p_drawRecord p) = p_student p
      \<and> emitted (snd (drawCard e u tm tr))
          = emitted e @ [DrawStart (length (getAvailableStudents (students e))),
                         DrawComplete (p_student p) (p_drawRecord p) (p_remainingCount p)]
      \<and> \<not> isDrawing (snd (drawCard e u tm tr))
      \<and> (distinct (map sid (students e)) \<longrightarrow>
            fst (markStudentAsDrawn (sid (p_student p)) tm (students e)) = True))"
proof (cases rule: drawCard_begin_cases[where e = e and u = u and tm = tm and tr = tr])
  case Busy
  then show ?thesis by (simp add: drawCard_def)
next
  case Exhausted
  then show ?thesis by (simp add: drawCard_def emit_def)
next
  case TypeError
  then show ?thesis by (simp add: drawCard_def)
next
  case (Selected s)
  then have mem: "s \<in> set (getAvailableStudents (students e))"
    using selectStudent_mem by blast
  then have "s \<in> set (students e)" "\<not> isDrawn s"
    by (simp_all add: getAvailableStudents_def)
  then have "distinct (map sid (students e)) \<Longrightarrow>
      fst (markStudentAsDrawn (sid s) tm (students e)) = True"
    by (simp add: markStudentAsDrawn_distinct)
  with Selected mem show ?thesis
    by (auto simp: drawCard_def drawCard_resume_def emit_def)
qed

theorem draw_commit_witness:
  "fst (drawCard (newEngine []) 0 1 2) = Inl ExhaustedPool
   \<and> students (snd (drawCard (newEngine []) 0 1 2)) = students (newEngine [])
   \<and> drawHistory (snd (drawCard (newEngine []) 0 1 2)) = drawHistory (newEngine [])
   \<and> fst (drawCard (newEngine roster5381) 0 1 2) = Inr firstDraw
   \<and> distinct (map sid (students (newEngine roster5381)))
   \<and> p_student firstDraw \<in> set (getAvailableStudents (students (newEngine roster5381)))
   \<and> drawHistory (snd (drawCard (newEngine roster5381) 0 1 2))
       = drawHistory (newEngine roster5381) @ [p_drawRecord firstDraw]
   \<and> fst (markStudentAsDrawn (sid (p_student firstDraw)) 1 (students (newEngine roster5381))) = True"
proof -
  have h: "fst (drawCard (newEngine []) 0 1 2) = Inl ExhaustedPool"
    "fst (drawCard (newEngine roster5381) 0 1 2) = Inr firstDraw"
    "distinct (map sid (students (newEngine roster5381)))"
    by code_simp+
  from h draw_commit[of "newEngine []" 0 1 2 ExhaustedPool]
    draw_commit[of "newEngine roster5381" 0 1 2 _ firstDraw]
  show ?thesis by blast
qed

text \<open>
  C1, as it is stated, fails when the mark fails, which happens on a roster with a
  repeated id: \<open>importStudents\<close> of two records with the id 1 gives the students A and
  B; the first draw marks A; then B alone is available, \<open>markStudentAsDrawn(1)\<close> finds A
  already drawn and returns \<open>false\<close>, and the second draw still succeeds, leaves the
  roster as it was (B undrawn), appends the record of B and emits draw-complete.
\<close>

theorem draw_commit_counterexample:
  "map sid duplicateRoster = [Num 1, Num 1]
   \<and> map name (getAvailableStudents (students drawnOnce)) = [''B'']
   \<and> fst (markStudentAsDrawn (Num 1) 2 (students drawnOnce)) = False
   \<and> (case drawCard drawnOnce 0 2 3 of
         (Inl err, e') \<Rightarrow> False
       | (Inr p, e') \<Rightarrow>
           sid (p_student p) = Num 1 \<and> name (p_student p) = ''B''
           \<and> students e' = students drawnOnce
           \<and> map (\<lambda>r. name (student r)) (drawHistory drawnOnce) = [''A'']
           \<and> map (\<lambda>r. name (student r)) (drawHistory e') = [''A'', ''B'']
           \<and> emitted e' = emitted drawnOnce
                @ [DrawStart 1, DrawComplete (p_student p) (p_drawRecord p) 0])"
  by code_simp

section \<open>A reset while a draw is at its await\<close>

text \<open>
  C2. The mark and the history record are made before the \<open>await\<close> of \<open>drawCard\<close>: at
  the \<open>await\<close> the engine is drawing, the pool has been asked to mark the selected
  student and the record is the last of the history. A \<open>reset\<close> then leaves every
  student undrawn, the history empty and the engine idle. The draw, when it resumes,
  validates nothing and changes neither the roster nor the history: it emits
  draw-complete and returns its result. So after it no student is drawn and the history
  is empty.
\<close>

theorem reset_during_draw:
  "fst (drawCard_begin e u tm tr) = Inr p \<longrightarrow>
     (let e1 = snd (drawCard_begin e u tm tr);
          e2 = reset e1;
          e3 = snd (drawCard_resume p e2)
      in isDrawing e1
         \<and> students e1 = snd (markStudentAsDrawn (sid (p_student p)) tm (students e))
         \<and> drawHistory e1 = drawHistory e @ [p_drawRecord p]
         \<and> getDrawnStudents (students e2) = [] \<and> drawHistory e2 = [] \<and> \<not> isDrawing e2
         \<and> fst (drawCard_resume p e2) = Inr p
         \<and> students e3 = students e2 \<and> getDrawnStudents (students e3) = []
         \<and> drawHistory e3 = [] \<and> \<not> isDrawing e3
         \<and> emitted e3 = emitted e
              @ [DrawStart (length (getAvailableStudents (students e))),
                 ResetComplete (length (students e)),
                 DrawComplete (p_student p) (p_drawRecord p) (p_remainingCount p)])"
proof (cases rule: drawCard_begin_cases[where e = e and u = u and tm = tm and tr = tr])
  case (Selected s)
  have len: "length (snd (markStudentAsDrawn i tm xs)) = length xs" for i xs
    using arg_cong[OF map_sid_updateFirst, of "\<lambda>s. s\<lparr>isDrawn := True, drawnAt := Some tm\<rparr>" length i xs]
    by (simp add: markStudentAsDrawn_def split: option.splits)
  have undrawn: "getDrawnStudents (resetAllStudents xs) = []" for xs
    by (simp add: getDrawnStudents_def resetAllStudents_def)
  have len': "length (resetAllStudents xs) = length xs" for xs
    by (simp add: resetAllStudents_def)
  from Selected show ?thesis
    by (auto simp: Let_def reset_def drawCard_resume_def emit_def getAllStudents_def len len'
        undrawn)
qed simp_all

theorem reset_during_draw_witness:
  "fst (drawCard_begin (newEngine roster5381) 0 1 2) = Inr firstDraw
   \<and> isDrawing inFlight
   \<and> map sid (getDrawnStudents (students inFlight)) = [Num 5]
   \<and> drawHistory inFlight = [p_drawRecord firstDraw]
   \<and> getDrawnStudents (students (reset inFlight)) = []
   \<and> drawHistory (reset inFlight) = []
   \<and> fst (drawCard_resume firstDraw (reset inFlight)) = Inr firstDraw
   \<and> getDrawnStudents (students (snd (drawCard_resume firstDraw (reset inFlight)))) = []
   \<and> drawHistory (snd (drawCard_resume firstDraw (reset inFlight))) = []
   \<and> \<not> isDrawing (snd (drawCard_resume firstDraw (reset inFlight)))"
proof -
  have h: "fst (drawCard_begin (newEngine roster5381) 0 1 2) = Inr firstDraw"
    "map sid (getDrawnStudents (students inFlight)) = [Num 5]"
    "drawHistory (newEngine roster5381) = []"
    by code_simp+
  from h reset_during_draw[of "newEngine roster5381" 0 1 2 firstDraw]
  show ?thesis by (simp add: Let_def inFlight_def)
qed

text \<open>
  C2, as it is stated, fails: the draw that a \<open>reset\<close> overtook is not rejected. On
  the roster with the ids 5, 3, 8, 1 the resumed draw returns its result as a success,
  and the notifications are draw-start, reset-complete, draw-complete: no draw-error.
\<close>

theorem reset_during_draw_counterexample:
  "(case drawCard_begin (newEngine roster5381) 0 1 2 of
      (Inl err, e1) \<Rightarrow> False
    | (Inr p, e1) \<Rightarrow>
        fst (drawCard_resume p (reset e1)) = Inr p
        \<and> emitted (snd (drawCard_resume p (reset e1)))
            = [DrawStart 4, ResetComplete 4,
               DrawComplete (p_student p) (p_drawRecord p) (p_remainingCount p)])"
  by code_simp

section \<open>Failing draws\<close>

text \<open>
  C3. Every failing draw returns its error to the caller. A draw fails as busy exactly
  when the engine is drawing; it then emits nothing and leaves the engine as it is,
  still drawing. A draw that fails because no student is available emits draw-error
  with that error and leaves the engine idle, otherwise unchanged. A draw in which the
  selection throws, which needs a random value outside \<open>[0, 1)\<close>, has emitted
  draw-start and draw-error with that error and leaves the engine idle. There is no
  other failure: the result of the mark is not read.
\<close>

theorem draw_failures:
  "(fst (drawCard e u tm tr) = Inl Busy \<longrightarrow>
      isDrawing e \<and> snd (drawCard e u tm tr) = e)
   \<and> (isDrawing e \<longrightarrow> drawCard e u tm tr = (Inl Busy, e))
   \<and> (fst (drawCard e u tm tr) = Inl ExhaustedPool \<longrightarrow>
      \<not> isDrawing e \<and> getAvailableStudents (students e) = []
      \<and> snd (drawCard e u tm tr) = emit (DrawError ExhaustedPool) e
      \<and> emitted (snd (drawCard e u tm tr)) = emitted e @ [DrawError ExhaustedPool]
      \<and> \<not> isDrawing (snd (drawCard e u tm tr)))
   \<and> (fst (drawCard e u tm tr) = Inl TypeError \<longrightarrow>
      \<not> isDrawing e \<and> \<not> (0 \<le> u \<and> u < 1)
      \<and> emitted (snd (drawCard e u tm tr))
          = emitted e @ [DrawStart (length (getAvailableStudents (students e))),
                         DrawError TypeError]
      \<and> \<not> isDrawing (snd (drawCard e u tm tr)))"
proof (cases rule: drawCard_begin_cases[where e = e and u = u and tm = tm and tr = tr])
  case Busy
  then show ?thesis by (simp add: drawCard_def)
next
  case Exhausted
  then show ?thesis by (simp add: drawCard_def emit_def)
next
  case TypeError
  then have "\<not> (0 \<le> u \<and> u < 1)"
    using selectStudent_Some[of u "getAvailableStudents (students e)" e] by blast
  with TypeError show ?thesis by (simp add: drawCard_def)
next
  case (Selected s)
  then show ?thesis by (simp add: drawCard_def drawCard_resume_def)
qed

theorem draw_failures_witness:
  "isDrawing inFlight
   \<and> drawCard inFlight 0 3 4 = (Inl Busy, inFlight)
   \<and> fst (drawCard (newEngine []) 0 1 2) = Inl ExhaustedPool
   \<and> getAvailableStudents (students (newEngine [])) = []
   \<and> emitted (snd (drawCard (newEngine []) 0 1 2)) = [DrawError ExhaustedPool]
   \<and> \<not> isDrawing (snd (drawCard (newEngine []) 0 1 2))
   \<and> fst (drawCard (newEngine roster5381) 2 1 2) = Inl TypeError
   \<and> emitted (snd (drawCard (newEngine roster5381) 2 1 2)) = [DrawStart 4, DrawError TypeError]
   \<and> \<not> isDrawing (snd (drawCard (newEngine roster5381) 2 1 2))"
proof -
  have h: "isDrawing inFlight" "fst (drawCard inFlight 0 3 4) = Inl Busy"
    "fst (drawCard (newEngine []) 0 1 2) = Inl ExhaustedPool"
    "fst (drawCard (newEngine roster5381) 2 1 2) = Inl TypeError"
    "emitted (newEngine []) = []" "emitted (newEngine roster5381) = []"
    "length (getAvailableStudents (students (newEngine roster5381))) = 4"
    by code_simp+
  from draw_failures[of inFlight 0 3 4] h(1)
  have b: "drawCard inFlight 0 3 4 = (Inl Busy, inFlight)"
    by blast
  from draw_failures[of "newEngine []" 0 1 2] h(3)
  have x: "getAvailableStudents (students (newEngine [])) = []"
    "emitted (snd (drawCard (newEngine []) 0 1 2)) = emitted (newEngine []) @ [DrawError ExhaustedPool]"
    "\<not> isDrawing (snd (drawCard (newEngine []) 0 1 2))"
    by blast+
  from draw_failures[of "newEngine roster5381" 2 1 2] h(4)
  have t: "emitted (snd (drawCard (newEngine roster5381) 2 1 2))
             = emitted (newEngine roster5381)
                 @ [DrawStart (length (getAvailableStudents (students (newEngine roster5381)))),
                    DrawError TypeError]"
    "\<not> isDrawing (snd (drawCard (newEngine roster5381) 2 1 2))"
    by blast+
  from x(2) h(5) have x2: "emitted (snd (drawCard (newEngine []) 0 1 2)) = [DrawError ExhaustedPool]"
    by simp
  from t(1) h(6) h(7)
  have t2: "emitted (snd (drawCard (newEngine roster5381) 2 1 2)) = [DrawStart 4, DrawError TypeError]"
    by simp
  from h(1) h(3) h(4) b x(1) x(3) x2 t(2) t2 show ?thesis
    by blast
qed

text \<open>
  C3, as it is stated, fails for a busy engine: while the first draw on the roster with
  the ids 5, 3, 8, 1 is at its \<open>await\<close>, a second draw fails as busy, the
  notifications stay the single draw-start of the first draw, and the engine is still
  drawing.
\<close>

theorem draw_failures_counterexample:
  "isDrawing inFlight \<and> emitted inFlight = [DrawStart 4]
   \<and> fst (drawCard inFlight 0 3 4) = Inl Busy
   \<and> emitted (snd (drawCard inFlight 0 3 4)) = [DrawStart 4]
   \<and> isDrawing (snd (drawCard inFlight 0 3 4))"
  by code_simp

end
